theory Spec2Isabelle
  imports Main
begin

section \<open>The terminal chat widget of terminalChatWidget.ts\<close>

text \<open>
  The class \<^verbatim>\<open>TerminalChatWidget\<close> composes DOM elements, two context keys, an inline
  chat widget and a lazily created response viewer. Every method is modelled as a function
  on one state record that holds the fields of the class together with the state of the
  collaborators the methods write to (the document, the context-key store, the model
  service, the accessibility service, the focus owner and the queue of promise
  continuations). Objects that the class owns are held by value and carry an identity
  number; cross references between objects are identity numbers.
\<close>

subsection \<open>DOM elements\<close>

type_synonym node = nat

record html_element =
  node_id :: node
  tagName :: string
  classList :: "string list"
  textContent :: string
  childNodes :: "node list"

text \<open>\<^verbatim>\<open>document.createElement(tag)\<close>: a fresh element without classes, text or children.\<close>

definition createElement :: "string \<Rightarrow> node \<Rightarrow> html_element" where
  "createElement tag n =
     \<lparr>node_id = n, tagName = tag, classList = [], textContent = [], childNodes = []\<rparr>"

text \<open>\<^verbatim>\<open>classList.add(token)\<close>: a token list holds every token once.\<close>

definition classList_add :: "string \<Rightarrow> html_element \<Rightarrow> html_element" where
  "classList_add t e =
     (if t \<in> set (classList e) then e else e\<lparr>classList := classList e @ [t]\<rparr>)"

text \<open>\<^verbatim>\<open>classList.remove(t1, t2, ...)\<close>\<close>

definition classList_remove :: "string list \<Rightarrow> html_element \<Rightarrow> html_element" where
  "classList_remove ts e = e\<lparr>classList := filter (\<lambda>c. c \<notin> set ts) (classList e)\<rparr>"

text \<open>\<^verbatim>\<open>parent.appendChild(child)\<close> and \<^verbatim>\<open>parent.prepend(child)\<close>\<close>

definition appendChild :: "node \<Rightarrow> html_element \<Rightarrow> html_element" where
  "appendChild c e = e\<lparr>childNodes := filter (\<lambda>k. k \<noteq> c) (childNodes e) @ [c]\<rparr>"

definition prepend :: "node \<Rightarrow> html_element \<Rightarrow> html_element" where
  "prepend c e = e\<lparr>childNodes := c # filter (\<lambda>k. k \<noteq> c) (childNodes e)\<rparr>"

text \<open>
  \<^verbatim>\<open>element.textContent = s\<close>: the children are replaced by the one text \<open>s\<close>.
\<close>

definition set_textContent :: "string \<Rightarrow> html_element \<Rightarrow> html_element" where
  "set_textContent s e = e\<lparr>textContent := s, childNodes := []\<rparr>"

definition hidden :: "html_element \<Rightarrow> bool" where
  "hidden e = (''hide'' \<in> set (classList e))"

subsection \<open>Context keys\<close>

text \<open>
  The two keys of \<^verbatim>\<open>TerminalContextKeys\<close> that the widget binds. A context-key service is
  identified by a number; a scoped service remembers its parent and the element it was
  created on. The values live in the store \<open>context_values\<close> of the state, per service.
\<close>

datatype raw_context_key = chatFocused | chatVisible

record context_key_service =
  service_id :: nat
  parent_service :: "nat option"
  scope_element :: "node option"

record context_key =
  key_target :: context_key_service
  key_name :: raw_context_key

text \<open>
  Modelled from the spec: \<^verbatim>\<open>IContextKeyService.createScoped(element)\<close> is not in the source
  file. It yields a child namespace for the element, with a fresh identity.
\<close>

definition createScoped :: "context_key_service \<Rightarrow> html_element \<Rightarrow> nat \<Rightarrow> context_key_service" where
  "createScoped parent e fresh =
     \<lparr>service_id = fresh, parent_service = Some (service_id parent),
      scope_element = Some (node_id e)\<rparr>"

text \<open>
  Modelled from the spec: \<^verbatim>\<open>RawContextKey.bindTo(service)\<close> is not in the source file. It
  yields the handle of the key in the namespace of the given service.
\<close>

definition bindTo :: "raw_context_key \<Rightarrow> context_key_service \<Rightarrow> context_key" where
  "bindTo k target = \<lparr>key_target = target, key_name = k\<rparr>"

subsection \<open>Services and nested widgets\<close>

record instantiation_service =
  contextKeyService_of :: context_key_service

text \<open>
  \<^verbatim>\<open>instantiationService.createChild(new ServiceCollection([IContextKeyService, s]))\<close>: the
  child resolves the context-key service to \<open>s\<close>.
\<close>

definition createChild :: "instantiation_service \<Rightarrow> context_key_service \<Rightarrow> instantiation_service" where
  "createChild parent s = parent\<lparr>contextKeyService_of := s\<rparr>"

datatype dimension = Dimension nat nat

record uri =
  scheme :: string
  path :: string
  fragment :: string

record text_model =
  model_uri :: uri
  model_value :: string
  isDisposed :: bool

text \<open>
  Modelled from the spec: the class \<^verbatim>\<open>CodeEditorWidget\<close> is not in the source file. The
  spec calls the response viewer an editor-like view bound to a virtual in-memory document,
  whose text content is attached when the document is set and replaced by
  \<^verbatim>\<open>setValue\<close>, and which is laid out at a size.
\<close>

record code_editor_widget =
  editor_id :: nat
  domElement :: node
  extraEditorClassName :: "string option"
  isSimpleWidget :: bool
  editor_services :: instantiation_service
  editor_model :: "uri option"
  editor_value :: string
  editor_dimension :: "dimension option"

definition new_CodeEditorWidget ::
  "instantiation_service \<Rightarrow> html_element \<Rightarrow> string option \<Rightarrow> bool \<Rightarrow> nat \<Rightarrow> code_editor_widget" where
  "new_CodeEditorWidget svc e cls simple fresh =
     \<lparr>editor_id = fresh, domElement = node_id e, extraEditorClassName = cls,
      isSimpleWidget = simple, editor_services = svc, editor_model = None,
      editor_value = [], editor_dimension = None\<rparr>"

definition editor_setModel :: "text_model option \<Rightarrow> code_editor_widget \<Rightarrow> code_editor_widget" where
  "editor_setModel m w =
     (case m of
        None \<Rightarrow> w\<lparr>editor_model := None, editor_value := []\<rparr>
      | Some d \<Rightarrow> w\<lparr>editor_model := Some (model_uri d), editor_value := model_value d\<rparr>)"

definition editor_setValue :: "string \<Rightarrow> code_editor_widget \<Rightarrow> code_editor_widget" where
  "editor_setValue v w = w\<lparr>editor_value := v\<rparr>"

definition editor_layout :: "dimension \<Rightarrow> code_editor_widget \<Rightarrow> code_editor_widget" where
  "editor_layout d w = w\<lparr>editor_dimension := Some d\<rparr>"

datatype menu_id =
  MENU_TERMINAL_CHAT_INPUT
| MENU_TERMINAL_CHAT_WIDGET
| MENU_TERMINAL_CHAT_WIDGET_STATUS
| MENU_TERMINAL_CHAT_WIDGET_FEEDBACK

text \<open>
  Modelled from the spec: the class \<^verbatim>\<open>InlineChatWidget\<close> is not in the source file. The
  widget has an input text (the property \<^verbatim>\<open>value\<close>, here \<open>input_value\<close>), a
  placeholder, an information text, a DOM node of its own, a layout size and it receives
  progress signals, recorded in the order of arrival.
\<close>

record inline_chat_widget =
  chat_id :: nat
  parentEditor :: code_editor_widget
  menuId :: menu_id
  widgetMenuId :: menu_id
  statusMenuId :: menu_id
  feedbackMenuId :: menu_id
  chat_services :: instantiation_service
  domNode :: html_element
  placeholder :: string
  info :: string
  input_value :: string
  chat_dimension :: "dimension option"
  progress_signals :: "bool list"

definition new_InlineChatWidget ::
  "instantiation_service \<Rightarrow> code_editor_widget \<Rightarrow> menu_id \<Rightarrow> menu_id \<Rightarrow> menu_id \<Rightarrow> menu_id
     \<Rightarrow> nat \<Rightarrow> node \<Rightarrow> inline_chat_widget" where
  "new_InlineChatWidget svc parent m wm sm fm fresh fresh_node =
     \<lparr>chat_id = fresh, parentEditor = parent, menuId = m, widgetMenuId = wm,
      statusMenuId = sm, feedbackMenuId = fm, chat_services = svc,
      domNode = createElement ''div'' fresh_node, placeholder = [], info = [],
      input_value = [], chat_dimension = None, progress_signals = []\<rparr>"

definition updateInfo :: "string \<Rightarrow> inline_chat_widget \<Rightarrow> inline_chat_widget" where
  "updateInfo s c = c\<lparr>info := s\<rparr>"

definition chat_layout :: "dimension \<Rightarrow> inline_chat_widget \<Rightarrow> inline_chat_widget" where
  "chat_layout d c = c\<lparr>chat_dimension := Some d\<rparr>"

definition chat_updateProgress :: "bool \<Rightarrow> inline_chat_widget \<Rightarrow> inline_chat_widget" where
  "chat_updateProgress b c = c\<lparr>progress_signals := progress_signals c @ [b]\<rparr>"

text \<open>\<^verbatim>\<open>localize(key, message)\<close>: the message of the default language.\<close>

definition localize :: "string \<Rightarrow> string \<Rightarrow> string" where
  "localize k message = message"

record terminal_instance =
  instanceId :: nat

record focus_tracker =
  tracked_element :: node

definition trackFocus :: "html_element \<Rightarrow> focus_tracker" where
  "trackFocus e = \<lparr>tracked_element = node_id e\<rparr>"

datatype disposable =
  ScopedContextKeyService context_key_service
| FocusTracker focus_tracker

datatype focus_owner = FocusElsewhere | FocusInlineChat | FocusTerminal

record chat_progress =
  kind :: string

subsection \<open>The state\<close>

text \<open>
  The environment is what the constructor finds: the counters from which the document,
  the instantiation service and the context-key service take fresh identities, the values
  of the context keys per service, the responses accepted by the accessibility service,
  the documents of the model service, the owner of the input focus, and the results of
  resolved promises whose continuations have not run yet.
\<close>

record environment =
  next_node :: nat
  next_object :: nat
  next_service :: nat
  context_values :: "nat \<Rightarrow> raw_context_key \<Rightarrow> bool option"
  accepted_responses :: "(string \<times> int) list"
  models :: "uri \<Rightarrow> text_model option"
  focus :: focus_owner
  pending :: "text_model option list"

record state = environment +
  container :: html_element
  terminalInstance :: terminal_instance
  contextKeyService :: context_key_service
  scopedInstantiationService :: instantiation_service
  widgetContainer :: html_element
  chatWidgetFocused :: context_key
  chatWidgetVisible :: context_key
  inlineChatWidget :: inline_chat_widget
  responseWidget :: "code_editor_widget option"
  responseElement :: html_element
  focusTracker :: focus_tracker
  registered :: "disposable list"

text \<open>
  Modelled from the spec: \<^verbatim>\<open>IContextKey.set(v)\<close> is not in the source file. It publishes
  the value in the namespace the key is bound to; \<open>contextKey_get\<close> is what a reader of
  that namespace finds.
\<close>

definition contextKey_set :: "context_key \<Rightarrow> bool \<Rightarrow> state \<Rightarrow> state" where
  "contextKey_set k v st =
     st\<lparr>context_values :=
          (context_values st)
            (service_id (key_target k) :=
               (context_values st (service_id (key_target k)))(key_name k \<mapsto> v))\<rparr>"

definition contextKey_get :: "context_key \<Rightarrow> state \<Rightarrow> bool option" where
  "contextKey_get k st = context_values st (service_id (key_target k)) (key_name k)"

text \<open>
  \<^verbatim>\<open>this._chatAccessibilityService.acceptResponse(text, requestId)\<close>: the service is
  told of the response; the calls are recorded in their order. A request id is a number
  that the widget only passes on, and the width given to \<^verbatim>\<open>layout\<close> is a number it
  ignores; integers stand for both.
\<close>

definition acceptResponse :: "string \<Rightarrow> int \<Rightarrow> state \<Rightarrow> state" where
  "acceptResponse s requestId st =
     st\<lparr>accepted_responses := accepted_responses st @ [(s, requestId)]\<rparr>"

subsection \<open>The constructor\<close>

definition TerminalChatWidget ::
  "html_element \<Rightarrow> terminal_instance \<Rightarrow> instantiation_service \<Rightarrow> context_key_service
     \<Rightarrow> environment \<Rightarrow> state" where
  "TerminalChatWidget container0 instance0 instantiationService contextKeyService0 env =
     (let scopedContextKeyService = createScoped contextKeyService0 container0 (next_service env);
          scopedInstantiation = createChild instantiationService scopedContextKeyService;
          focused = bindTo chatFocused contextKeyService0;
          visible = bindTo chatVisible contextKeyService0;
          widgetContainer1 = classList_add ''terminal-inline-chat''
                               (createElement ''div'' (next_node env));
          container1 = appendChild (node_id widgetContainer1) container0;
          responseElement1 = classList_add ''terminal-inline-chat-response''
                               (createElement ''div'' (next_node env + 1));
          widgetContainer2 = prepend (node_id responseElement1) widgetContainer1;
          fakeParentEditorElement = createElement ''div'' (next_node env + 2);
          fakeParentEditor = new_CodeEditorWidget scopedInstantiation fakeParentEditorElement
                               (Some ''ignore-panel-bg'') True (next_object env);
          chat1 = new_InlineChatWidget scopedInstantiation fakeParentEditor
                    MENU_TERMINAL_CHAT_INPUT MENU_TERMINAL_CHAT_WIDGET
                    MENU_TERMINAL_CHAT_WIDGET_STATUS MENU_TERMINAL_CHAT_WIDGET_FEEDBACK
                    (next_object env + 1) (next_node env + 3);
          chat2 = chat1\<lparr>placeholder :=
                    localize ''default.placeholder'' ''Ask how to do something in the terminal''\<rparr>;
          chat3 = updateInfo (localize ''welcome.1'' ''AI-generated code may be incorrect'') chat2;
          widgetContainer3 = appendChild (node_id (domNode chat3)) widgetContainer2;
          tracker = trackFocus widgetContainer3
      in \<lparr>next_node = next_node env + 4,
          next_object = next_object env + 2,
          next_service = next_service env + 1,
          context_values = context_values env,
          accepted_responses = accepted_responses env,
          models = models env,
          focus = focus env,
          pending = pending env,
          container = container1,
          terminalInstance = instance0,
          contextKeyService = contextKeyService0,
          scopedInstantiationService = scopedInstantiation,
          widgetContainer = widgetContainer3,
          chatWidgetFocused = focused,
          chatWidgetVisible = visible,
          inlineChatWidget = chat3,
          responseWidget = None,
          responseElement = responseElement1,
          focusTracker = tracker,
          registered = [ScopedContextKeyService scopedContextKeyService, FocusTracker tracker]\<rparr>)"

subsection \<open>The methods\<close>

text \<open>
  The template literal \<^verbatim>\<open>`terminal-inline-chat-${instanceId}`\<close> writes the instance id in
  decimal.
\<close>

definition digit_char :: "nat \<Rightarrow> char" where
  "digit_char d = char_of (48 + d)"

function string_of_nat :: "nat \<Rightarrow> string" where
  "string_of_nat n =
     (if n < 10 then [digit_char n] else string_of_nat (n div 10) @ [digit_char (n mod 10)])"
  by pat_completeness auto
termination
  by (relation "measure (\<lambda>n. n)") auto

declare string_of_nat.simps [simp del]

definition response_uri :: "terminal_instance \<Rightarrow> string \<Rightarrow> uri" where
  "response_uri i codeBlock =
     \<lparr>scheme = ''terminal-inline-chat'',
      path = ''terminal-inline-chat-'' @ string_of_nat (instanceId i),
      fragment = codeBlock\<rparr>"

text \<open>
  \<^verbatim>\<open>_getTextModel(resource)\<close>: the body has no \<^verbatim>\<open>await\<close>, so the model service is read and
  written during the call and the promise is resolved with the returned value.
\<close>

definition getTextModel :: "uri \<Rightarrow> state \<Rightarrow> text_model option \<times> state" where
  "getTextModel resource st =
     (let created = \<lparr>model_uri = resource, model_value = fragment resource, isDisposed = False\<rparr>;
          create = (Some created, st\<lparr>models := (models st)(resource \<mapsto> created)\<rparr>)
      in case models st resource of
           Some existing \<Rightarrow> if \<not> isDisposed existing then (Some existing, st) else create
         | None \<Rightarrow> create)"

definition renderTerminalCommand :: "string \<Rightarrow> int \<Rightarrow> state \<Rightarrow> state" where
  "renderTerminalCommand codeBlock requestId st =
     (let st1 = st\<lparr>responseElement := classList_remove [''message'', ''hide''] (responseElement st)\<rparr>;
          st2 = acceptResponse codeBlock requestId st1
      in case responseWidget st2 of
           None \<Rightarrow>
             (let w = new_CodeEditorWidget (scopedInstantiationService st2) (responseElement st2)
                        None True (next_object st2);
                  st3 = st2\<lparr>next_object := next_object st2 + 1, responseWidget := Some w\<rparr>;
                  (model, st4) = getTextModel (response_uri (terminalInstance st3) codeBlock) st3
              in st4\<lparr>pending := pending st4 @ [model]\<rparr>)
         | Some w \<Rightarrow> st2\<lparr>responseWidget := Some (editor_setValue codeBlock w)\<rparr>)"

text \<open>
  The continuation passed to \<^verbatim>\<open>then\<close>. Reading a property of \<^verbatim>\<open>undefined\<close> throws a
  \<^verbatim>\<open>TypeError\<close> in the source language; the guard returns before that can happen.
\<close>

datatype error = TypeError

definition renderTerminalCommand_then :: "text_model option \<Rightarrow> state \<Rightarrow> error + state" where
  "renderTerminalCommand_then model st =
     (if model = None \<or> responseWidget st = None then Inr st
      else case responseWidget st of
             None \<Rightarrow> Inl TypeError
           | Some w \<Rightarrow>
               Inr (st\<lparr>responseWidget :=
                         Some (editor_layout (Dimension 400 150) (editor_setModel model w))\<rparr>))"

definition renderMessage :: "string \<Rightarrow> int \<Rightarrow> state \<Rightarrow> state" where
  "renderMessage message requestId st =
     (let st1 = st\<lparr>responseElement := classList_remove [''hide''] (responseElement st)\<rparr>;
          st2 = st1\<lparr>responseElement := classList_add ''message'' (responseElement st1)\<rparr>;
          st3 = acceptResponse message requestId st2
      in st3\<lparr>responseElement := set_textContent message (responseElement st3)\<rparr>)"

definition reveal :: "state \<Rightarrow> state" where
  "reveal st =
     (let st1 = st\<lparr>inlineChatWidget := chat_layout (Dimension 400 150) (inlineChatWidget st)\<rparr>;
          st2 = st1\<lparr>widgetContainer := classList_remove [''hide''] (widgetContainer st1)\<rparr>;
          st3 = contextKey_set (chatWidgetFocused st2) True st2;
          st4 = contextKey_set (chatWidgetVisible st3) True st3
      in st4\<lparr>focus := FocusInlineChat\<rparr>)"

definition hide :: "state \<Rightarrow> state" where
  "hide st =
     (let st1 = st\<lparr>responseElement := classList_add ''hide'' (responseElement st)\<rparr>;
          st2 = st1\<lparr>widgetContainer := classList_add ''hide'' (widgetContainer st1)\<rparr>;
          st3 = contextKey_set (chatWidgetFocused st2) False st2;
          st4 = contextKey_set (chatWidgetVisible st3) False st3
      in st4\<lparr>focus := FocusTerminal\<rparr>)"

definition cancel :: "state \<Rightarrow> state" where
  "cancel st = st\<lparr>inlineChatWidget := (inlineChatWidget st)\<lparr>input_value := []\<rparr>\<rparr>"

definition input :: "state \<Rightarrow> string" where
  "input st = input_value (inlineChatWidget st)"

text \<open>
  \<^verbatim>\<open>setValue(value?: string)\<close>: \<open>None\<close> is the absent argument; \<^verbatim>\<open>!value\<close> holds for the
  absent argument and for the empty string.
\<close>

definition setValue :: "string option \<Rightarrow> state \<Rightarrow> state" where
  "setValue v st =
     (let st1 = st\<lparr>inlineChatWidget :=
                     (inlineChatWidget st)\<lparr>input_value := (case v of None \<Rightarrow> [] | Some s \<Rightarrow> s)\<rparr>\<rparr>
      in if v = None \<or> v = Some []
         then st1\<lparr>responseElement := classList_add ''hide'' (responseElement st1)\<rparr>
         else st1)"

definition updateProgress :: "chat_progress option \<Rightarrow> state \<Rightarrow> state" where
  "updateProgress progress st =
     st\<lparr>inlineChatWidget :=
          chat_updateProgress
            (map_option kind progress = Some ''content''
               \<or> map_option kind progress = Some ''markdownContent'')
            (inlineChatWidget st)\<rparr>"

text \<open>\<^verbatim>\<open>layout(width)\<close>: the body is a comment.\<close>

definition layout :: "int \<Rightarrow> state \<Rightarrow> state" where
  "layout width st = st"

subsection \<open>Sequences of calls\<close>

text \<open>
  A call of a method that returns nothing, or the run of the oldest waiting promise
  continuation (\<open>Microtask\<close>), which may come at any later point.
\<close>

datatype event =
  RenderTerminalCommand string int
| RenderMessage string int
| Reveal
| Hide
| Cancel
| SetValue "string option"
| UpdateProgress "chat_progress option"
| Layout int
| Microtask

fun step :: "event \<Rightarrow> state \<Rightarrow> error + state" where
  "step (RenderTerminalCommand c r) st = Inr (renderTerminalCommand c r st)"
| "step (RenderMessage m r) st = Inr (renderMessage m r st)"
| "step Reveal st = Inr (reveal st)"
| "step Hide st = Inr (hide st)"
| "step Cancel st = Inr (cancel st)"
| "step (SetValue v) st = Inr (setValue v st)"
| "step (UpdateProgress p) st = Inr (updateProgress p st)"
| "step (Layout w) st = Inr (layout w st)"
| "step Microtask st =
     (case pending st of
        [] \<Rightarrow> Inr st
      | model # rest \<Rightarrow> renderTerminalCommand_then model (st\<lparr>pending := rest\<rparr>))"

fun run :: "event list \<Rightarrow> state \<Rightarrow> error + state" where
  "run [] st = Inr st"
| "run (e # es) st = (case step e st of Inl err \<Rightarrow> Inl err | Inr st' \<Rightarrow> run es st')"

subsection \<open>Properties and a concrete widget\<close>

text \<open>
  What the context-key store and the class list of the widget container say about the
  visibility of the widget, and when the two agree.
\<close>

definition visibility :: "state \<Rightarrow> bool option \<times> bool option \<times> bool" where
  "visibility st =
     (contextKey_get (chatWidgetFocused st) st, contextKey_get (chatWidgetVisible st) st,
      hidden (widgetContainer st))"

definition visibility_consistent :: "state \<Rightarrow> bool" where
  "visibility_consistent st =
     (let f = contextKey_get (chatWidgetFocused st) st;
          v = contextKey_get (chatWidgetVisible st) st
      in (f = Some True \<and> v = Some True \<and> \<not> hidden (widgetContainer st))
         \<or> (f = Some False \<and> v = Some False \<and> hidden (widgetContainer st)))"

text \<open>
  The viewer \<open>w'\<close> is the object \<open>w\<close>: same identity, same DOM parent, same construction
  options and services. It may differ in the document, the text and the size.
\<close>

definition viewer_kept :: "code_editor_widget \<Rightarrow> code_editor_widget \<Rightarrow> bool" where
  "viewer_kept w w' =
     (editor_id w' = editor_id w \<and> domElement w' = domElement w
      \<and> extraEditorClassName w' = extraEditorClassName w
      \<and> isSimpleWidget w' = isSimpleWidget w
      \<and> editor_services w' = editor_services w)"

text \<open>The viewer \<open>w'\<close> differs from \<open>w\<close> in its text at most.\<close>

definition only_value_replaced :: "code_editor_widget \<Rightarrow> code_editor_widget \<Rightarrow> bool" where
  "only_value_replaced w w' = (w'\<lparr>editor_value := editor_value w\<rparr> = w)"

text \<open>
  A widget for the terminal instance 7, built on an empty container, with the root
  context-key service (no parent, no element) injected.
\<close>

definition example_service :: context_key_service where
  "example_service = \<lparr>service_id = 0, parent_service = None, scope_element = None\<rparr>"

definition example_env :: environment where
  "example_env =
     \<lparr>next_node = 1, next_object = 0, next_service = 1,
      context_values = (\<lambda>s k. None), accepted_responses = [],
      models = (\<lambda>u. None), focus = FocusElsewhere, pending = []\<rparr>"

definition example_widget :: state where
  "example_widget =
     TerminalChatWidget (createElement ''div'' 0) \<lparr>instanceId = 7\<rparr>
       \<lparr>contextKeyService_of = example_service\<rparr> example_service example_env"

section \<open>Verification\<close>

lemmas dom_defs = createElement_def classList_add_def classList_remove_def appendChild_def
  prepend_def set_textContent_def hidden_def

lemmas method_defs = renderTerminalCommand_def renderMessage_def reveal_def hide_def cancel_def
  setValue_def updateProgress_def layout_def acceptResponse_def getTextModel_def
  contextKey_set_def contextKey_get_def chat_layout_def chat_updateProgress_def
  editor_setValue_def editor_setModel_def editor_layout_def new_CodeEditorWidget_def

lemmas constructor_defs = TerminalChatWidget_def createScoped_def createChild_def bindTo_def
  new_CodeEditorWidget_def new_InlineChatWidget_def updateInfo_def localize_def trackFocus_def

lemmas example_defs = example_widget_def example_env_def example_service_def

subsection \<open>Sequences of calls never fail\<close>

lemma step_total: "\<exists>st'. step e st = Inr st'"
  by (cases e) (auto simp: renderTerminalCommand_then_def split: list.splits option.splits)

lemma run_total: "\<exists>st'. run es st = Inr st'"
proof (induction es arbitrary: st)
  case Nil
  show ?case by simp
next
  case (Cons e es)
  obtain st1 where "step e st = Inr st1" using step_total by blast
  then show ?case using Cons.IH [of st1] by simp
qed

lemma run_invariant:
  assumes pres: "\<And>e s s'. P s \<Longrightarrow> step e s = Inr s' \<Longrightarrow> P s'"
    and init: "P st" and run: "run es st = Inr st'"
  shows "P st'"
  using init run
proof (induction es arbitrary: st)
  case Nil
  then show ?case by simp
next
  case (Cons e es)
  obtain st1 where s1: "step e st = Inr st1" using step_total by blast
  with Cons.prems have "P st1" and "run es st1 = Inr st'" using pres by auto
  then show ?case using Cons.IH by blast
qed

subsection \<open>Visibility\<close>

lemma visibility_renderTerminalCommand:
  "visibility (renderTerminalCommand c r st) = visibility st"
  by (simp add: visibility_def method_defs Let_def split: option.splits prod.splits)

lemma visibility_then:
  "renderTerminalCommand_then m st = Inr st' \<Longrightarrow> visibility st' = visibility st"
  by (auto simp add: visibility_def renderTerminalCommand_then_def method_defs
      split: option.splits if_splits)

lemma visibility_step:
  "step e st = Inr st' \<Longrightarrow> e \<noteq> Reveal \<Longrightarrow> e \<noteq> Hide \<Longrightarrow> visibility st' = visibility st"
proof (cases e)
  case (RenderTerminalCommand c r)
  assume "step e st = Inr st'"
  then show ?thesis using RenderTerminalCommand by (auto simp: visibility_renderTerminalCommand)
next
  case Microtask
  assume a: "step e st = Inr st'"
  show ?thesis
  proof (cases "pending st")
    case Nil
    then show ?thesis using a Microtask by simp
  next
    case (Cons m rest)
    then have "renderTerminalCommand_then m (st\<lparr>pending := rest\<rparr>) = Inr st'"
      using a Microtask by simp
    from visibility_then [OF this] show ?thesis by (simp add: visibility_def contextKey_get_def)
  qed
qed (auto simp add: visibility_def method_defs Let_def split: if_splits)

lemma consistent_visibility:
  "visibility_consistent st =
     (visibility st = (Some True, Some True, False) \<or> visibility st = (Some False, Some False, True))"
  by (auto simp: visibility_consistent_def visibility_def Let_def)

lemma visibility_reveal: "visibility (reveal st) = (Some True, Some True, False)"
  by (simp add: visibility_def method_defs dom_defs Let_def)

lemma visibility_hide: "visibility (hide st) = (Some False, Some False, True)"
  by (simp add: visibility_def method_defs dom_defs Let_def)

lemma consistent_step:
  assumes "visibility_consistent st" and "step e st = Inr st'"
  shows "visibility_consistent st'"
proof (cases "e = Reveal \<or> e = Hide")
  case True
  then show ?thesis using assms(2) visibility_reveal visibility_hide
    by (auto simp: consistent_visibility)
next
  case False
  then show ?thesis using assms visibility_step [of e st st']
    by (simp add: consistent_visibility)
qed

text \<open>
  C1. Whatever calls came before, after \<^verbatim>\<open>reveal()\<close> both context keys are true and the
  widget container is not hidden, and after \<^verbatim>\<open>hide()\<close> both keys are false and the widget
  container and the response container are hidden. Both methods leave the keys and the
  class list in agreement, and every call and every promise continuation keeps them in
  agreement.
\<close>

theorem reveal_hide_visibility:
  "\<exists>st'. run evs st = Inr st'
     \<and> contextKey_get (chatWidgetFocused (reveal st')) (reveal st') = Some True
     \<and> contextKey_get (chatWidgetVisible (reveal st')) (reveal st') = Some True
     \<and> \<not> hidden (widgetContainer (reveal st'))
     \<and> contextKey_get (chatWidgetFocused (hide st')) (hide st') = Some False
     \<and> contextKey_get (chatWidgetVisible (hide st')) (hide st') = Some False
     \<and> hidden (widgetContainer (hide st'))
     \<and> hidden (responseElement (hide st'))
     \<and> visibility_consistent (reveal st')
     \<and> visibility_consistent (hide st')
     \<and> (visibility_consistent st \<longrightarrow> visibility_consistent st')"
proof -
  obtain st' where r: "run evs st = Inr st'" using run_total by blast
  have a: "visibility (reveal st') = (Some True, Some True, False)" by (rule visibility_reveal)
  have b: "visibility (hide st') = (Some False, Some False, True)" by (rule visibility_hide)
  have c: "hidden (responseElement (hide st'))"
    by (simp add: method_defs dom_defs Let_def)
  have d: "visibility_consistent st \<longrightarrow> visibility_consistent st'"
  proof
    assume i: "visibility_consistent st"
    show "visibility_consistent st'"
      by (rule run_invariant [where P = visibility_consistent, OF _ i r]) (rule consistent_step)
  qed
  show ?thesis using r a b c d
    by (simp add: visibility_def consistent_visibility)
qed

theorem reveal_hide_visibility_witness:
  "visibility_consistent (hide example_widget)
   \<and> (\<exists>st'. run [Reveal, RenderMessage ''hello'' 1, Hide, SetValue None, Reveal]
               (hide example_widget) = Inr st'
         \<and> visibility_consistent st'
         \<and> \<not> hidden (widgetContainer (reveal st'))
         \<and> hidden (responseElement (hide st')))"
proof -
  have h: "visibility_consistent (hide example_widget)"
    by (simp add: consistent_visibility visibility_hide)
  from reveal_hide_visibility
         [of "[Reveal, RenderMessage ''hello'' 1, Hide, SetValue None, Reveal]"
             "hide example_widget"]
  show ?thesis using h by blast
qed

subsection \<open>The response viewer\<close>

lemma viewer_renderTerminalCommand:
  "responseWidget st = Some w \<Longrightarrow>
     renderTerminalCommand c r st
       = st\<lparr>accepted_responses := accepted_responses st @ [(c, r)],
            responseWidget := Some (w\<lparr>editor_value := c\<rparr>),
            responseElement := classList_remove [''message'', ''hide''] (responseElement st)\<rparr>"
  by (simp add: renderTerminalCommand_def acceptResponse_def editor_setValue_def Let_def)

lemma viewer_step:
  assumes "responseWidget st = Some w" and "step e st = Inr st'"
  shows "\<exists>w'. responseWidget st' = Some w' \<and> viewer_kept w w'
           \<and> next_object st' = next_object st
           \<and> (e \<noteq> Microtask \<longrightarrow> only_value_replaced w w')"
proof (cases e)
  case (RenderTerminalCommand c r)
  then show ?thesis using assms
    by (auto simp: viewer_renderTerminalCommand viewer_kept_def only_value_replaced_def)
next
  case Microtask
  then show ?thesis using assms
    by (auto simp: renderTerminalCommand_then_def viewer_kept_def editor_layout_def
        editor_setModel_def split: list.splits option.splits if_splits)
qed (use assms in \<open>auto simp add: method_defs Let_def viewer_kept_def only_value_replaced_def
       split: if_splits\<close>)

lemma viewer_kept_trans: "viewer_kept a b \<Longrightarrow> viewer_kept b c \<Longrightarrow> viewer_kept a c"
  by (simp add: viewer_kept_def)

lemma only_value_replaced_trans:
  "only_value_replaced a b \<Longrightarrow> only_value_replaced b c \<Longrightarrow> only_value_replaced a c"
  by (cases a, cases b, cases c) (simp add: only_value_replaced_def)

lemma viewer_kept_refl: "viewer_kept a a"
  by (simp add: viewer_kept_def)

lemma only_value_replaced_refl: "only_value_replaced a a"
  by (simp add: only_value_replaced_def)

subsection \<open>The document identifier\<close>

lemma digit_char_inj:
  assumes "a < 10" and "b < 10" and "digit_char a = digit_char b"
  shows "a = b"
proof -
  have "(48 + a) mod 256 = (48 + b) mod 256"
    using assms(3) unfolding digit_char_def by (simp only: char_of_quasi_inj)
  moreover have "(48 + a) mod 256 = 48 + a" using assms(1) by simp
  moreover have "(48 + b) mod 256 = 48 + b" using assms(2) by simp
  ultimately show ?thesis by simp
qed

lemma string_of_nat_nonempty: "string_of_nat n \<noteq> []"
  by (subst string_of_nat.simps) simp

lemma string_of_nat_inj: "string_of_nat n = string_of_nat m \<Longrightarrow> n = m"
proof (induction n arbitrary: m rule: string_of_nat.induct)
  case (1 n)
  show ?case
  proof (cases "n < 10")
    case small_n: True
    show ?thesis
    proof (cases "m < 10")
      case True
      with small_n "1.prems" show ?thesis
        by (simp add: string_of_nat.simps [of n] string_of_nat.simps [of m] digit_char_inj)
    next
      case False
      with small_n "1.prems" string_of_nat_nonempty [of "m div 10"] show ?thesis
        by (simp add: string_of_nat.simps [of n] string_of_nat.simps [of m])
    qed
  next
    case big_n: False
    show ?thesis
    proof (cases "m < 10")
      case True
      with big_n "1.prems" string_of_nat_nonempty [of "n div 10"] show ?thesis
        by (simp add: string_of_nat.simps [of n] string_of_nat.simps [of m])
    next
      case False
      with big_n "1.prems" have
        e: "string_of_nat (n div 10) = string_of_nat (m div 10)"
           "digit_char (n mod 10) = digit_char (m mod 10)"
        by (simp_all add: string_of_nat.simps [of n] string_of_nat.simps [of m])
      from "1.IH" [OF big_n e(1)] have d: "n div 10 = m div 10" .
      from digit_char_inj [OF _ _ e(2)] have r: "n mod 10 = m mod 10" by simp
      show ?thesis using d r by (metis div_mult_mod_eq)
    qed
  qed
qed

lemma response_uri_inj:
  "response_uri i c = response_uri j d \<longleftrightarrow> instanceId i = instanceId j \<and> c = d"
  by (auto simp: response_uri_def dest: string_of_nat_inj)

text \<open>
  C2. A call of \<^verbatim>\<open>renderTerminalCommand\<close> on a widget without a response viewer creates one
  viewer (one fresh object) on the response element and leaves a continuation waiting for
  the document that the model service holds under the identifier built from the terminal's
  instance id (distinct instance ids give distinct identifiers; a document created for it
  carries the identifier and the code block); when the continuation runs, the viewer is
  bound to that document and laid out at 400 by 150. A call on a widget that has a viewer
  keeps the viewer, replaces its text by the code block and creates no object.
\<close>

theorem renderTerminalCommand_viewer:
  "(responseWidget st = None \<longrightarrow>
      (\<exists>w m. responseWidget (renderTerminalCommand c r st) = Some w
         \<and> editor_id w = next_object st
         \<and> domElement w = node_id (responseElement st)
         \<and> next_object (renderTerminalCommand c r st) = Suc (next_object st)
         \<and> models (renderTerminalCommand c r st) (response_uri (terminalInstance st) c) = Some m
         \<and> (models st (response_uri (terminalInstance st) c) = None \<longrightarrow>
              model_uri m = response_uri (terminalInstance st) c \<and> model_value m = c)
         \<and> pending (renderTerminalCommand c r st) = pending st @ [Some m]
         \<and> (pending st = [] \<longrightarrow>
              (\<exists>st2. step Microtask (renderTerminalCommand c r st) = Inr st2
                 \<and> responseWidget st2 =
                     Some (w\<lparr>editor_model := Some (model_uri m), editor_value := model_value m,
                             editor_dimension := Some (Dimension 400 150)\<rparr>)
                 \<and> next_object st2 = Suc (next_object st)))))
   \<and> (\<forall>w. responseWidget st = Some w \<longrightarrow>
         responseWidget (renderTerminalCommand c r st) = Some (w\<lparr>editor_value := c\<rparr>)
         \<and> next_object (renderTerminalCommand c r st) = next_object st
         \<and> pending (renderTerminalCommand c r st) = pending st)
   \<and> (\<forall>i d. response_uri i d = response_uri (terminalInstance st) c
         \<longleftrightarrow> instanceId i = instanceId (terminalInstance st) \<and> d = c)"
proof (intro conjI impI allI)
  assume n: "responseWidget st = None"
  show "\<exists>w m. responseWidget (renderTerminalCommand c r st) = Some w
         \<and> editor_id w = next_object st
         \<and> domElement w = node_id (responseElement st)
         \<and> next_object (renderTerminalCommand c r st) = Suc (next_object st)
         \<and> models (renderTerminalCommand c r st) (response_uri (terminalInstance st) c) = Some m
         \<and> (models st (response_uri (terminalInstance st) c) = None \<longrightarrow>
              model_uri m = response_uri (terminalInstance st) c \<and> model_value m = c)
         \<and> pending (renderTerminalCommand c r st) = pending st @ [Some m]
         \<and> (pending st = [] \<longrightarrow>
              (\<exists>st2. step Microtask (renderTerminalCommand c r st) = Inr st2
                 \<and> responseWidget st2 =
                     Some (w\<lparr>editor_model := Some (model_uri m), editor_value := model_value m,
                             editor_dimension := Some (Dimension 400 150)\<rparr>)
                 \<and> next_object st2 = Suc (next_object st)))"
    using n
    by (cases "models st (response_uri (terminalInstance st) c)")
       (auto simp add: method_defs dom_defs Let_def renderTerminalCommand_then_def response_uri_def)
next
  fix w assume "responseWidget st = Some w"
  then show "responseWidget (renderTerminalCommand c r st) = Some (w\<lparr>editor_value := c\<rparr>)"
    and "next_object (renderTerminalCommand c r st) = next_object st"
    and "pending (renderTerminalCommand c r st) = pending st"
    by (simp_all add: viewer_renderTerminalCommand)
next
  fix i d
  show "response_uri i d = response_uri (terminalInstance st) c
         \<longleftrightarrow> instanceId i = instanceId (terminalInstance st) \<and> d = c"
    by (rule response_uri_inj)
qed

theorem renderTerminalCommand_viewer_witness:
  "responseWidget example_widget = None
   \<and> (\<exists>w m. responseWidget (renderTerminalCommand ''echo hi'' 1 example_widget) = Some w
         \<and> editor_id w = 2
         \<and> next_object (renderTerminalCommand ''echo hi'' 1 example_widget) = 3
         \<and> pending (renderTerminalCommand ''echo hi'' 1 example_widget) = [Some m]
         \<and> model_value m = ''echo hi''
         \<and> responseWidget
              (renderTerminalCommand ''echo bye'' 2
                 (renderTerminalCommand ''echo hi'' 1 example_widget))
             = Some (w\<lparr>editor_value := ''echo bye''\<rparr>)
         \<and> next_object
              (renderTerminalCommand ''echo bye'' 2
                 (renderTerminalCommand ''echo hi'' 1 example_widget)) = 3)"
proof -
  have n: "responseWidget example_widget = None"
    and o: "next_object example_widget = 2"
    and p: "pending example_widget = []"
    and d: "models example_widget (response_uri (terminalInstance example_widget) ''echo hi'') = None"
    by (simp_all add: example_defs constructor_defs Let_def)
  from renderTerminalCommand_viewer [of example_widget "''echo hi''" 1] n o p d
  obtain w m where
    w: "responseWidget (renderTerminalCommand ''echo hi'' 1 example_widget) = Some w"
       "editor_id w = 2"
       "next_object (renderTerminalCommand ''echo hi'' 1 example_widget) = 3"
       "pending (renderTerminalCommand ''echo hi'' 1 example_widget) = [Some m]"
       "model_value m = ''echo hi''"
    by auto
  from renderTerminalCommand_viewer
         [of "renderTerminalCommand ''echo hi'' 1 example_widget" "''echo bye''" 2] w(1) w(3)
  have "responseWidget
          (renderTerminalCommand ''echo bye'' 2
             (renderTerminalCommand ''echo hi'' 1 example_widget))
         = Some (w\<lparr>editor_value := ''echo bye''\<rparr>)"
    and "next_object
          (renderTerminalCommand ''echo bye'' 2
             (renderTerminalCommand ''echo hi'' 1 example_widget)) = 3"
    by auto
  with n w show ?thesis by blast
qed

text \<open>
  C9. Once the widget has a response viewer, every sequence of calls and promise
  continuations ends in a state that still has it: the reference is set, the viewer is the
  same object, and no object has been created. When no continuation ran in between, the
  viewer differs in its text at most.
\<close>

theorem responseWidget_never_destroyed:
  assumes "responseWidget st = Some w"
  shows "\<exists>st' w'. run evs st = Inr st' \<and> responseWidget st' = Some w'
           \<and> viewer_kept w w' \<and> next_object st' = next_object st
           \<and> (Microtask \<notin> set evs \<longrightarrow> only_value_replaced w w')"
  using assms
proof (induction evs arbitrary: st w)
  case Nil
  then show ?case by (simp add: viewer_kept_refl only_value_replaced_refl)
next
  case (Cons e es)
  obtain st1 where s1: "step e st = Inr st1" using step_total by blast
  from viewer_step [OF Cons.prems s1] obtain w1 where
    w1: "responseWidget st1 = Some w1" "viewer_kept w w1" "next_object st1 = next_object st"
        "e \<noteq> Microtask \<longrightarrow> only_value_replaced w w1"
    by blast
  from Cons.IH [OF w1(1)] obtain st' w' where
    r: "run es st1 = Inr st'" "responseWidget st' = Some w'" "viewer_kept w1 w'"
       "next_object st' = next_object st1"
       "Microtask \<notin> set es \<longrightarrow> only_value_replaced w1 w'"
    by blast
  have "run (e # es) st = Inr st'" using s1 r(1) by simp
  moreover have "viewer_kept w w'" using w1(2) r(3) by (rule viewer_kept_trans)
  moreover have "Microtask \<notin> set (e # es) \<longrightarrow> only_value_replaced w w'"
    using w1(4) r(5) only_value_replaced_trans by auto
  ultimately show ?case using r(2) r(4) w1(3) by auto
qed

theorem responseWidget_never_destroyed_witness:
  "\<exists>w st' w'.
     responseWidget (renderTerminalCommand ''echo hi'' 1 example_widget) = Some w
     \<and> run [Hide, Cancel, RenderMessage ''hello'' 2, SetValue None,
             RenderTerminalCommand ''echo bye'' 3, Reveal]
         (renderTerminalCommand ''echo hi'' 1 example_widget) = Inr st'
     \<and> responseWidget st' = Some w'
     \<and> editor_id w' = editor_id w
     \<and> next_object st' = 3
     \<and> w'\<lparr>editor_value := editor_value w\<rparr> = w"
proof -
  obtain w where
    w: "responseWidget (renderTerminalCommand ''echo hi'' 1 example_widget) = Some w"
    by (simp add: example_defs constructor_defs method_defs Let_def)
  have o: "next_object (renderTerminalCommand ''echo hi'' 1 example_widget) = 3"
    by (simp add: example_defs constructor_defs method_defs Let_def)
  have m: "Microtask \<notin> set [Hide, Cancel, RenderMessage ''hello'' 2, SetValue None,
             RenderTerminalCommand ''echo bye'' 3, Reveal]"
    by simp
  from responseWidget_never_destroyed
         [OF w, of "[Hide, Cancel, RenderMessage ''hello'' 2, SetValue None,
                     RenderTerminalCommand ''echo bye'' 3, Reveal]"] w o m
  show ?thesis unfolding viewer_kept_def only_value_replaced_def by metis
qed

subsection \<open>The promise continuation\<close>

text \<open>
  C3. When the promise resolves with no model, or after the reference to the response
  viewer has been cleared, the continuation returns the state as it found it, without an
  error; run from the queue, it only leaves the queue. The continuation throws in no
  state at all.
\<close>

theorem late_resolution_dropped:
  "(model = None \<or> responseWidget st = None \<longrightarrow>
      renderTerminalCommand_then model st = Inr st
      \<and> (\<forall>rest. pending st = model # rest \<longrightarrow> step Microtask st = Inr (st\<lparr>pending := rest\<rparr>)))
   \<and> (\<exists>st'. renderTerminalCommand_then model st = Inr st')"
  by (auto simp add: renderTerminalCommand_then_def split: option.splits)

theorem late_resolution_dropped_witness:
  "responseWidget example_widget = None
   \<and> renderTerminalCommand_then
        (Some \<lparr>model_uri = response_uri \<lparr>instanceId = 7\<rparr> ''echo hi'',
               model_value = ''echo hi'', isDisposed = False\<rparr>)
        example_widget = Inr example_widget
   \<and> renderTerminalCommand_then None (renderTerminalCommand ''echo hi'' 1 example_widget)
       = Inr (renderTerminalCommand ''echo hi'' 1 example_widget)"
proof -
  have n: "responseWidget example_widget = None"
    by (simp add: example_defs constructor_defs Let_def)
  from late_resolution_dropped
         [of "Some \<lparr>model_uri = response_uri \<lparr>instanceId = 7\<rparr> ''echo hi'',
                     model_value = ''echo hi'', isDisposed = False\<rparr>" example_widget]
       late_resolution_dropped
         [of None "renderTerminalCommand ''echo hi'' 1 example_widget"] n
  show ?thesis by simp
qed

subsection \<open>The context keys\<close>

text \<open>
  C4, as the code has it. The two context keys are bound to the context-key service that
  is injected into the constructor. The scoped service that the constructor creates on
  the container it is given goes to the child instantiation service, from which the
  nested widgets are created. \<^verbatim>\<open>reveal()\<close> and \<^verbatim>\<open>hide()\<close> write the values of the two keys
  to the injected service and leave the values of every other service, the scoped one
  among them, as they were.
\<close>

theorem context_keys_bound_to_injected_service:
  "key_target (chatWidgetFocused (TerminalChatWidget c i isvc cks env)) = cks
   \<and> key_name (chatWidgetFocused (TerminalChatWidget c i isvc cks env)) = chatFocused
   \<and> key_target (chatWidgetVisible (TerminalChatWidget c i isvc cks env)) = cks
   \<and> key_name (chatWidgetVisible (TerminalChatWidget c i isvc cks env)) = chatVisible
   \<and> contextKeyService_of (scopedInstantiationService (TerminalChatWidget c i isvc cks env))
       = createScoped cks c (next_service env)
   \<and> context_values (reveal (TerminalChatWidget c i isvc cks env)) (service_id cks) chatFocused
       = Some True
   \<and> context_values (reveal (TerminalChatWidget c i isvc cks env)) (service_id cks) chatVisible
       = Some True
   \<and> context_values (hide (TerminalChatWidget c i isvc cks env)) (service_id cks) chatFocused
       = Some False
   \<and> context_values (hide (TerminalChatWidget c i isvc cks env)) (service_id cks) chatVisible
       = Some False
   \<and> (\<forall>s. s \<noteq> service_id cks \<longrightarrow>
         context_values (reveal (TerminalChatWidget c i isvc cks env)) s = context_values env s
         \<and> context_values (hide (TerminalChatWidget c i isvc cks env)) s = context_values env s)"
  by (simp add: constructor_defs method_defs Let_def)

theorem context_keys_bound_to_injected_service_witness:
  "(1::nat) \<noteq> service_id example_service
   \<and> key_target (chatWidgetFocused example_widget) = example_service
   \<and> key_target (chatWidgetVisible example_widget) = example_service
   \<and> service_id (contextKeyService_of (scopedInstantiationService example_widget)) = 1
   \<and> context_values (reveal example_widget) 1 = context_values example_env 1
   \<and> context_values (reveal example_widget) 0 chatVisible = Some True"
proof -
  have s: "(1::nat) \<noteq> service_id example_service"
    and z: "service_id example_service = 0"
    and e: "next_service example_env = 1"
    by (simp_all add: example_defs)
  from context_keys_bound_to_injected_service
         [of "createElement ''div'' 0" "\<lparr>instanceId = 7\<rparr>"
             "\<lparr>contextKeyService_of = example_service\<rparr>" example_service example_env]
       s z e
  show ?thesis unfolding example_widget_def createScoped_def by simp
qed

text \<open>
  The claim as the specification words it fails on the widget built with the root
  context-key service: the keys are not bound to the scoped service of the container,
  the service they are bound to belongs to no element, and after \<^verbatim>\<open>reveal()\<close> the value
  is found in the root service and not in the scoped one.
\<close>

theorem context_keys_scoped_counterexample:
  "key_target (chatWidgetFocused example_widget)
     \<noteq> contextKeyService_of (scopedInstantiationService example_widget)
   \<and> key_target (chatWidgetVisible example_widget)
     \<noteq> contextKeyService_of (scopedInstantiationService example_widget)
   \<and> scope_element (key_target (chatWidgetFocused example_widget)) = None
   \<and> scope_element (key_target (chatWidgetVisible example_widget)) = None
   \<and> scope_element (contextKeyService_of (scopedInstantiationService example_widget))
       = Some (node_id (container example_widget))
   \<and> context_values (reveal example_widget) 0 chatVisible = Some True
   \<and> context_values (reveal example_widget) 1 chatVisible = None"
  by (simp add: example_defs constructor_defs method_defs dom_defs Let_def)

subsection \<open>The input text, messages and progress\<close>

text \<open>
  C5. After \<^verbatim>\<open>setValue(v)\<close> the method \<^verbatim>\<open>input()\<close> returns \<open>v\<close>. After \<^verbatim>\<open>setValue()\<close>
  without an argument, or with the empty string, \<^verbatim>\<open>input()\<close> returns the empty string and
  the response container is hidden.
\<close>

theorem setValue_input:
  "input (setValue (Some v) st) = v
   \<and> input (setValue None st) = []
   \<and> hidden (responseElement (setValue None st))
   \<and> input (setValue (Some []) st) = []
   \<and> hidden (responseElement (setValue (Some []) st))"
  by (simp add: input_def setValue_def dom_defs Let_def)

theorem setValue_input_witness:
  "input (setValue (Some ''foo'') example_widget) = ''foo''
   \<and> input (setValue None (setValue (Some ''foo'') example_widget)) = []
   \<and> hidden (responseElement (setValue None (setValue (Some ''foo'') example_widget)))"
  using setValue_input [of "''foo''" example_widget]
        setValue_input [of "''foo''" "setValue (Some ''foo'') example_widget"]
  by simp

text \<open>
  C6. After \<^verbatim>\<open>renderMessage(m, id)\<close> the text content of the response container is \<open>m\<close>,
  the container carries the class \<^verbatim>\<open>message\<close> and is not hidden, and \<^verbatim>\<open>input()\<close> returns
  what it returned before.
\<close>

theorem renderMessage_response:
  "textContent (responseElement (renderMessage m r st)) = m
   \<and> ''message'' \<in> set (classList (responseElement (renderMessage m r st)))
   \<and> \<not> hidden (responseElement (renderMessage m r st))
   \<and> input (renderMessage m r st) = input st"
  by (simp add: input_def renderMessage_def dom_defs acceptResponse_def Let_def)

theorem renderMessage_response_witness:
  "textContent (responseElement (renderMessage ''hello'' 1 (setValue (Some ''foo'') example_widget)))
     = ''hello''
   \<and> ''message'' \<in> set (classList (responseElement
         (renderMessage ''hello'' 1 (setValue (Some ''foo'') example_widget))))
   \<and> input (renderMessage ''hello'' 1 (setValue (Some ''foo'') example_widget)) = ''foo''"
  using renderMessage_response [of "''hello''" 1 "setValue (Some ''foo'') example_widget"]
  by (simp add: input_def setValue_def)

text \<open>
  C7. \<^verbatim>\<open>updateProgress\<close> sends one signal to the inline chat widget. The signal is true
  exactly when a progress object is given and its \<^verbatim>\<open>kind\<close> is \<^verbatim>\<open>content\<close> or
  \<^verbatim>\<open>markdownContent\<close>.
\<close>

theorem updateProgress_forwards:
  "progress_signals (inlineChatWidget (updateProgress p st)) =
     progress_signals (inlineChatWidget st) @
       [case p of None \<Rightarrow> False
        | Some pr \<Rightarrow> kind pr = ''content'' \<or> kind pr = ''markdownContent'']"
  by (cases p) (simp_all add: updateProgress_def chat_updateProgress_def)

theorem updateProgress_forwards_witness:
  "progress_signals (inlineChatWidget (updateProgress (Some \<lparr>kind = ''content''\<rparr>) example_widget))
     = progress_signals (inlineChatWidget example_widget) @ [True]
   \<and> progress_signals
        (inlineChatWidget (updateProgress (Some \<lparr>kind = ''markdownContent''\<rparr>) example_widget))
     = progress_signals (inlineChatWidget example_widget) @ [True]
   \<and> progress_signals (inlineChatWidget (updateProgress (Some \<lparr>kind = ''other''\<rparr>) example_widget))
     = progress_signals (inlineChatWidget example_widget) @ [False]
   \<and> progress_signals (inlineChatWidget (updateProgress None example_widget))
     = progress_signals (inlineChatWidget example_widget) @ [False]"
  using updateProgress_forwards [of "Some \<lparr>kind = ''content''\<rparr>" example_widget]
        updateProgress_forwards [of "Some \<lparr>kind = ''markdownContent''\<rparr>" example_widget]
        updateProgress_forwards [of "Some \<lparr>kind = ''other''\<rparr>" example_widget]
        updateProgress_forwards [of None example_widget]
  by simp

text \<open>
  C8. After \<^verbatim>\<open>cancel()\<close> the method \<^verbatim>\<open>input()\<close> returns the empty string. Nothing outside
  the inline chat widget changes (the context keys, the class lists, the response viewer,
  the documents and the waiting continuations among it), and inside the inline chat
  widget nothing but the input text changes.
\<close>

theorem cancel_clears_input_only:
  "input (cancel st) = []
   \<and> (cancel st)\<lparr>inlineChatWidget := inlineChatWidget st\<rparr> = st
   \<and> (inlineChatWidget (cancel st))\<lparr>input_value := input_value (inlineChatWidget st)\<rparr>
       = inlineChatWidget st
   \<and> pending (cancel st) = pending st
   \<and> context_values (cancel st) = context_values st
   \<and> widgetContainer (cancel st) = widgetContainer st
   \<and> responseElement (cancel st) = responseElement st
   \<and> responseWidget (cancel st) = responseWidget st"
  by (simp add: input_def cancel_def)

theorem cancel_clears_input_only_witness:
  "input (cancel (renderTerminalCommand ''echo hi'' 1 (setValue (Some ''foo'') example_widget))) = []
   \<and> pending (cancel (renderTerminalCommand ''echo hi'' 1 (setValue (Some ''foo'') example_widget)))
       = pending (renderTerminalCommand ''echo hi'' 1 (setValue (Some ''foo'') example_widget))
   \<and> responseWidget (cancel (renderTerminalCommand ''echo hi'' 1 (setValue (Some ''foo'') example_widget)))
       = responseWidget (renderTerminalCommand ''echo hi'' 1 (setValue (Some ''foo'') example_widget))"
  using cancel_clears_input_only
          [of "renderTerminalCommand ''echo hi'' 1 (setValue (Some ''foo'') example_widget)"]
  by simp

text \<open>
  C10. \<^verbatim>\<open>hide()\<close> and \<^verbatim>\<open>reveal()\<close> leave the input text as it is: \<^verbatim>\<open>input()\<close> returns the
  same string before and after either call, and after hiding and revealing again.
\<close>

theorem hide_reveal_keep_input:
  "input (hide st) = input st \<and> input (reveal st) = input st
   \<and> input (reveal (hide st)) = input st"
  by (simp add: input_def hide_def reveal_def contextKey_set_def chat_layout_def Let_def)

theorem hide_reveal_keep_input_witness:
  "input (hide (setValue (Some ''foo'') example_widget)) = ''foo''
   \<and> input (reveal (hide (setValue (Some ''foo'') example_widget))) = ''foo''"
  using hide_reveal_keep_input [of "setValue (Some ''foo'') example_widget"]
  by (simp add: input_def setValue_def)

end
